theory Spec2Isabelle
  imports Complex_Main "HOL-Library.AList" "HOL-Library.Word"
begin

section \<open>The dispatcher of devazuka/dispatch (src/dispatcher.ts)\<close>

text \<open>
  The dispatcher keeps four tables (\<open>QUEUES\<close>, \<open>REQUESTS\<close>, \<open>CLIENTS\<close> and the
  persistent \<open>localStorage\<close>) and a directory of cache files. Every handler is embedded as
  a function from the state before to a response and the state after. JavaScript objects
  and \<open>Map\<close>s are association lists in their enumeration order (a new key is appended, an
  existing key keeps its place: \<open>AList.update\<close>). A handler runs as one step, without
  another handler in between, and reads the clock once: \<open>Date.now()\<close> is the parameter
  \<open>now\<close> (integer milliseconds) and \<open>performance.now()\<close> is a rational. An object that
  sits in a table is named by its key; \<open>push\<close> is the only insertion into \<open>REQUESTS\<close> and
  files every request under its own \<open>key\<close>.
\<close>

subsection \<open>Numbers and strings of the host language\<close>

text \<open>
  \<open>String_js\<close> is \<open>String(v)\<close> for an integer \<open>v\<close>: the decimal digits, with a minus sign
  below zero. \<open>Number_js\<close> is \<open>Number(s)\<close> on the integer literals: the empty string is
  \<open>0\<close>, an optional sign followed by decimal digits is that integer, and \<open>None\<close> stands
  for \<open>NaN\<close>. The host accepts further literals (blanks, fractions, exponents, other
  radixes, \<open>Infinity\<close>); they are not integers of this model and are read as \<open>None\<close>.
\<close>

definition digit_char :: "nat \<Rightarrow> char" where
  "digit_char d = char_of (48 + d)"

fun show_nat :: "nat \<Rightarrow> string" where
  "show_nat n = (if n < 10 then [digit_char n] else show_nat (n div 10) @ [digit_char (n mod 10)])"

declare show_nat.simps [simp del]

definition String_js :: "int \<Rightarrow> string" where
  "String_js v = (if v < 0 then CHR ''-'' # show_nat (nat (- v)) else show_nat (nat v))"

definition is_digit :: "char \<Rightarrow> bool" where
  "is_digit c = (48 \<le> (of_char c :: nat) \<and> (of_char c :: nat) \<le> 57)"

definition digits_value :: "string \<Rightarrow> nat" where
  "digits_value s = foldl (\<lambda>acc c. 10 * acc + (of_char c - 48)) 0 s"

definition Number_js :: "string \<Rightarrow> int option" where
  "Number_js s =
     (case s of
        [] \<Rightarrow> Some 0
      | c # cs \<Rightarrow>
          if c = CHR ''-'' \<and> cs \<noteq> [] \<and> list_all is_digit cs then Some (- int (digits_value cs))
          else if c = CHR ''+'' \<and> cs \<noteq> [] \<and> list_all is_digit cs then Some (int (digits_value cs))
          else if list_all is_digit s then Some (int (digits_value s))
          else None)"

text \<open>\<open>Array.prototype.join()\<close> with its default separator, the comma.\<close>

fun join_js :: "string list \<Rightarrow> string" where
  "join_js [] = []"
| "join_js [x] = x"
| "join_js (x # y # ys) = x @ CHR '','' # join_js (y # ys)"

subsection \<open>The cooldown codec\<close>

type_synonym TimersInfo = "(string \<times> int) list"

text \<open>\<open>encodeTimers\<close>: \<open>Object.entries(timers).join()\<close>; each entry is the array
  \<open>[name, unlockAt]\<close>, which \<open>join\<close> renders with a comma of its own.\<close>

definition encodeTimers :: "TimersInfo \<Rightarrow> string" where
  "encodeTimers timers = join_js (map (\<lambda>(k, v). join_js [k, String_js v]) timers)"

text \<open>
  The body of the \<open>while\<close> loop of \<open>decodeTimers\<close> at a separator (a comma, or the
  \<open>undefined\<close> read one past the end): the loop state is \<open>(queueName, currentStr, timers)\<close>.
\<close>

definition at_separator :: "int \<Rightarrow> string \<times> string \<times> TimersInfo \<Rightarrow> string \<times> string \<times> TimersInfo" where
  "at_separator now st =
     (case st of (queueName, currentStr, timers) \<Rightarrow>
        if queueName = [] then (currentStr, [], timers)
        else
          (case Number_js currentStr of
             Some unlockAt \<Rightarrow>
               if unlockAt \<noteq> 0 \<and> unlockAt > now
               then ([], [], AList.update queueName unlockAt timers)
               else ([], [], timers)
           | None \<Rightarrow> ([], [], timers)))"

fun decode_loop :: "int \<Rightarrow> string \<Rightarrow> string \<times> string \<times> TimersInfo \<Rightarrow> TimersInfo" where
  "decode_loop now [] st = snd (snd (at_separator now st))"
| "decode_loop now (c # cs) st =
     (if c = CHR '','' then decode_loop now cs (at_separator now st)
      else decode_loop now cs (fst st, fst (snd st) @ [c], snd (snd st)))"

definition decodeTimers :: "string option \<Rightarrow> int \<Rightarrow> TimersInfo" where
  "decodeTimers encodedTimers now =
     (case encodedTimers of
        None \<Rightarrow> []
      | Some s \<Rightarrow> if s = [] then [] else decode_loop now s ([], [], []))"


text \<open>
  \<open>cleanupLocalStorageTimers\<close>: every client's entry is re-encoded; an entry that
  decodes to nothing is removed, an entry that changes is rewritten.
\<close>

definition cleanup_entry :: "int \<Rightarrow> (string \<times> string) list \<Rightarrow> string \<Rightarrow> (string \<times> string) list" where
  "cleanup_entry now store clientId =
     (let before_str = map_of store clientId;
          after_str = encodeTimers (decodeTimers before_str now)
      in if after_str = [] then AList.delete clientId store
         else if before_str = Some after_str then store
         else AList.update clientId after_str store)"

subsection \<open>The webhook retry loop\<close>

text \<open>
  \<open>sendReply\<close>: the recipient is the function \<open>recipient\<close> from the number of the POST
  (which is \<open>attempts\<close>) to the status it answers. The result is the trace of the POSTs
  and timers; the loop has no bound of its own, so the model has fuel and \<open>None\<close> says
  that the fuel ran out.
\<close>

datatype reply_event = Fetched nat | SetTimeout nat

fun sendReply :: "nat \<Rightarrow> (nat \<Rightarrow> nat) \<Rightarrow> nat \<Rightarrow> reply_event list option" where
  "sendReply 0 recipient attempts = None"
| "sendReply (Suc fuel) recipient attempts =
     (let res = recipient attempts in
      if res \<noteq> 500 then Some [Fetched res]
      else
        (case sendReply fuel recipient (attempts + 1) of
           None \<Rightarrow> None
         | Some rest \<Rightarrow>
             Some (Fetched res # (if attempts \<noteq> 0 then [SetTimeout (attempts * 750)] else []) @ rest)))"

subsection \<open>The data model\<close>

type_synonym bytes = "8 word list"

text \<open>A waiter is the \<open>resolve\<close> function of a promise (told apart by the number of
  the promise) or the address of a webhook.\<close>

datatype PendingRequestHandler = ResolvePromise nat | URL string

record RequestQueue =
  name :: string
  delay :: int

record PendingRequest =
  key :: string
  href :: string
  headers :: "(string \<times> string) list option"
  createdAt :: rat
  startedAt :: "int option"
  queue :: string
  handlers :: "PendingRequestHandler list"
  attempts :: nat

record Client =
  cid :: string
  activeAt :: int
  started :: nat
  finished :: nat

record PostBody =
  pathname :: string
  search :: string
  post_href :: string
  expire :: "int option"
  post_headers :: "(string \<times> string) list option"
  reply :: "string option"

text \<open>What \<open>Deno.open\<close> finds at a path: nothing (the \<open>NotFound\<close> error), another
  error, or a file with what \<open>stat\<close> reports and its bytes.\<close>

record FsFile =
  isFile :: bool
  mtime :: "int option"
  birthtime :: "int option"
  content :: bytes

datatype open_result = NotFound | OpenError string | Opened FsFile

text \<open>An incoming request. Header names are in lower case, as \<open>Headers.get\<close> compares
  them. \<open>json\<close> is what \<open>request.json()\<close> followed by \<open>new URL(body.url)\<close> yields: the
  host name and the body with \<open>pathname\<close>, \<open>search\<close> and \<open>href\<close> filled in, or \<open>None\<close>
  when either throws.\<close>

record Request =
  req_method :: string
  url_pathname :: string
  req_headers :: "(string \<times> string) list"
  arrayBuffer :: bytes
  json :: "(string \<times> PostBody) option"

record RequestStatus =
  rs_queue :: string
  rs_href :: string
  rs_createdAt :: rat
  rs_startedAt :: "int option"

datatype body =
    NoBody
  | Text string
  | FailJson string nat
  | FileStream bytes
  | PromiseStream nat
  | DispatchJson string string "(string \<times> string) list option" nat
  | StatusJson "Client list" "(string \<times> TimersInfo) list" "RequestStatus list" int

record Response =
  status :: nat
  resp_headers :: "(string \<times> string) list"
  resp_body :: body

text \<open>What a delivery tells a waiter: the promise is resolved with the body, or
  \<open>sendReply(0)\<close> is started for the webhook with the body and the three headers
  \<open>x-request-key\<close>, \<open>x-request-href\<close>, \<open>x-request-status\<close>.\<close>

datatype notification =
    Resolved nat bytes
  | ReplyStarted string bytes string string string

datatype error = TypeError

record State =
  QUEUES :: "(string \<times> RequestQueue) list"
  REQUESTS :: "(string \<times> PendingRequest) list"
  CLIENTS :: "(string \<times> Client) list"
  localStorage :: "(string \<times> string) list"
  files :: "string \<Rightarrow> open_result"
  promises :: nat
  notified :: "notification list"
  dispatcheStartAt :: int

definition TIMEOUT :: int where
  "TIMEOUT = 10 * 1000"

definition NOT_FOUND :: Response where
  \<open>NOT_FOUND =
     \<lparr>status = 404,
      resp_headers = [(''content-type'', ''application/json'')],
      resp_body = Text ''{"message":"Not Found: Error 404"}''\<rparr>\<close>

definition EMPTY :: Response where
  "EMPTY = \<lparr>status = 204, resp_headers = [], resp_body = NoBody\<rparr>"

text \<open>\<open>fail\<close>: the JSON of \<open>{stack, message, status}\<close>; the stack trace is left out.\<close>

definition fail :: "nat \<Rightarrow> string \<Rightarrow> Response" where
  "fail st message =
     \<lparr>status = st,
      resp_headers = [(''content-type'', ''application/json'')],
      resp_body = FailJson message st\<rparr>"

subsection \<open>The scheduler\<close>

text \<open>
  One turn of the \<open>for\<close> loop of \<open>getNextInQueue\<close> on the pair \<open>(oldest, count)\<close>.
  A comparison with \<open>undefined\<close> is a comparison with \<open>NaN\<close>, which is false: a request
  without \<open>startedAt\<close> is not skipped, and the first request passes the test on \<open>oldest\<close>.
\<close>

definition scan_step ::
  "int \<Rightarrow> TimersInfo \<Rightarrow> PendingRequest option \<times> nat \<Rightarrow> PendingRequest \<Rightarrow> PendingRequest option \<times> nat" where
  "scan_step now timers acc req =
     (case acc of (oldest, count) \<Rightarrow>
        if (case startedAt req of None \<Rightarrow> False | Some t \<Rightarrow> now - t < TIMEOUT) then (oldest, count)
        else if (case map_of timers (queue req) of None \<Rightarrow> False | Some v \<Rightarrow> v \<noteq> 0) then (oldest, count)
        else if (case oldest of None \<Rightarrow> False | Some old \<Rightarrow> createdAt old < createdAt req)
          then (oldest, count + 1)
        else (Some req, count + 1))"

definition getNextInQueue ::
  "string \<Rightarrow> int \<Rightarrow> State \<Rightarrow> error + ((PendingRequest option \<times> nat) \<times> State)" where
  "getNextInQueue clientId now s =
     (let timers = decodeTimers (map_of (localStorage s) clientId) now in
      case foldl (scan_step now timers) (None, 0) (map snd (REQUESTS s)) of
        (None, count) \<Rightarrow> Inr ((None, 0), s)
      | (Some oldest, count) \<Rightarrow>
          (case map_of (QUEUES s) (queue oldest) of
             None \<Rightarrow> Inl TypeError
           | Some q \<Rightarrow>
               let timers' = AList.update (name q) (now + delay q) timers
               in Inr ((Some oldest, count),
                       s\<lparr>localStorage := AList.update clientId (encodeTimers timers') (localStorage s)\<rparr>)))"

subsection \<open>Queues and the request table\<close>

text \<open>
  \<open>registerQueue\<close> enters the queue under its name and each alias. The directory it
  makes is named by a host name; a cache key has a slash after the queue name, so the
  directory is never the path of a cache entry and \<open>files\<close> stays as it is.
\<close>

definition registerQueue :: "string \<Rightarrow> int \<Rightarrow> string list \<Rightarrow> State \<Rightarrow> RequestQueue \<times> State" where
  "registerQueue nm dl aliases s =
     (let q = \<lparr>name = nm, delay = dl\<rparr>
      in (q, s\<lparr>QUEUES := foldl (\<lambda>qs k. AList.update k q qs) (QUEUES s) (nm # aliases)\<rparr>))"

text \<open>\<open>queue.push\<close>: the closure made by \<open>registerQueue\<close>, on the object
  \<open>{key, href, headers}\<close> that \<open>POST\<close> hands it.\<close>

definition push ::
  "RequestQueue \<Rightarrow> rat \<Rightarrow> string \<Rightarrow> string \<Rightarrow> (string \<times> string) list option \<Rightarrow> State \<Rightarrow> State" where
  "push q perfNow k h hs s =
     s\<lparr>REQUESTS := AList.update k
          \<lparr>key = k, href = h, headers = hs, createdAt = perfNow, startedAt = None,
           queue = name q, handlers = [], attempts = 0\<rparr>
          (REQUESTS s)\<rparr>"

text \<open>\<open>Set.prototype.add\<close>: insertion order, no duplicate.\<close>

definition set_add :: "'a \<Rightarrow> 'a list \<Rightarrow> 'a list" where
  "set_add x xs = (if x \<in> set xs then xs else xs @ [x])"

text \<open>
  \<open>buildResponse\<close> is given the request object that sits in the table under \<open>k\<close>; the
  handler it adds is added to that object. With a webhook the answer is 202; without one
  a new promise is made and the answer streams what the promise will deliver. (The
  stream's later \<open>pull\<close> and \<open>cancel\<close> are events of their own.)
\<close>

definition buildResponse :: "string \<Rightarrow> string option \<Rightarrow> State \<Rightarrow> Response \<times> State" where
  "buildResponse k rep s =
     (case rep of
        Some u \<Rightarrow>
          (\<lparr>status = 202, resp_headers = [(''x-request-key'', k)], resp_body = NoBody\<rparr>,
           s\<lparr>REQUESTS := AList.map_entry k (\<lambda>r. r\<lparr>handlers := set_add (URL u) (handlers r)\<rparr>) (REQUESTS s)\<rparr>)
      | None \<Rightarrow>
          (let p = promises s in
           (\<lparr>status = 200, resp_headers = [(''x-request-key'', k)], resp_body = PromiseStream p\<rparr>,
            s\<lparr>REQUESTS := AList.map_entry k (\<lambda>r. r\<lparr>handlers := set_add (ResolvePromise p) (handlers r)\<rparr>) (REQUESTS s),
              promises := Suc p\<rparr>)))"

subsection \<open>Enqueue\<close>

definition from_cache :: "string \<Rightarrow> FsFile \<Rightarrow> Response" where
  "from_cache k f = \<lparr>status = 200, resp_headers = [(''x-from-cache'', k)], resp_body = FileStream (content f)\<rparr>"

text \<open>\<open>mtime || birthtime\<close>.\<close>

definition cachedDate :: "FsFile \<Rightarrow> int option" where
  "cachedDate f = (case mtime f of Some t \<Rightarrow> Some t | None \<Rightarrow> birthtime f)"

text \<open>
  \<open>POST\<close>. \<open>getKey\<close> (SHA-384, then base 58) is a parameter. The table is looked up
  first; then the file is opened. An error other than \<open>NotFound\<close>, a path that is not a
  file and a file without a date are answered with 500; a missing file and a stale one
  fall through to the enqueue. \<open>!expire\<close> holds for a missing \<open>expire\<close> and for 0.
\<close>

definition POST ::
  "(string \<Rightarrow> string) \<Rightarrow> int \<Rightarrow> rat \<Rightarrow> RequestQueue \<Rightarrow> PostBody \<Rightarrow> State \<Rightarrow> Response \<times> State" where
  "POST getKey now perfNow q b s =
     (let k = name q @ ''/'' @ getKey (pathname b @ search b);
          enqueue = buildResponse k (reply b) (push q perfNow k (post_href b) (post_headers b) s)
      in case map_of (REQUESTS s) k of
           Some req \<Rightarrow> buildResponse k (reply b) s
         | None \<Rightarrow>
             (case files s k of
                NotFound \<Rightarrow> enqueue
              | OpenError m \<Rightarrow> (fail 500 m, s)
              | Opened f \<Rightarrow>
                  if \<not> isFile f then (fail 500 (k @ '' is not a file''), s)
                  else
                    (case expire b of
                       None \<Rightarrow> (from_cache k f, s)
                     | Some e \<Rightarrow>
                         if e = 0 then (from_cache k f, s)
                         else
                           (case cachedDate f of
                              None \<Rightarrow> (fail 500 ''unable to access updated time'', s)
                            | Some t \<Rightarrow>
                                if t + e > now then (from_cache k f, s)
                                else enqueue))))"

text \<open>\<open>handleRequestQueue\<close>: a body that does not parse is a 400 (with the message of
  the error that was thrown, for which a fixed text stands here); an unknown host is
  registered with the default delay.\<close>

definition handleRequestQueue ::
  "(string \<Rightarrow> string) \<Rightarrow> int \<Rightarrow> rat \<Rightarrow> Request \<Rightarrow> State \<Rightarrow> Response \<times> State" where
  "handleRequestQueue getKey now perfNow request s =
     (case json request of
        None \<Rightarrow> (fail 400 ''invalid request body'', s)
      | Some (hostname, b) \<Rightarrow>
          (case map_of (QUEUES s) hostname of
             Some q \<Rightarrow> POST getKey now perfNow q b s
           | None \<Rightarrow>
               (case registerQueue hostname 60000 [] s of
                  (q, s') \<Rightarrow> POST getKey now perfNow q b s')))"

subsection \<open>Clients\<close>

text \<open>\<open>a || b\<close> on header values: \<open>null\<close> and the empty string are falsy.\<close>

definition js_or :: "string option \<Rightarrow> string option \<Rightarrow> string option" where
  "js_or a b = (case a of None \<Rightarrow> b | Some x \<Rightarrow> if x = [] then b else a)"

definition getClient :: "Request \<Rightarrow> int \<Rightarrow> State \<Rightarrow> Client option \<times> State" where
  "getClient request now s =
     (let hs = map_of (req_headers request);
          clientId =
            js_or (hs ''x-client-id'')
              (js_or (hs ''true-client-ip'')
                (js_or (hs ''cf-connecting-ip'') (hs ''x-forwared-for'')))
      in case clientId of
           None \<Rightarrow> (None, s)
         | Some i \<Rightarrow>
             if i = [] then (None, s)
             else
               (let client =
                      (case map_of (CLIENTS s) i of
                         Some c \<Rightarrow> c\<lparr>activeAt := now\<rparr>
                       | None \<Rightarrow> \<lparr>cid = i, activeAt = now, started = 0, finished = 0\<rparr>)
                in (Some client, s\<lparr>CLIENTS := AList.update i client (CLIENTS s)\<rparr>)))"

subsection \<open>Delivery\<close>

text \<open>\<open>Deno.writeFile\<close>: the file holds the bytes and its modification time is now.\<close>

definition writeFile :: "string \<Rightarrow> bytes \<Rightarrow> int \<Rightarrow> (string \<Rightarrow> open_result) \<Rightarrow> (string \<Rightarrow> open_result)" where
  "writeFile k b now fs =
     fs(k := Opened \<lparr>isFile = True, mtime = Some now,
                    birthtime = (case fs k of Opened f \<Rightarrow> birthtime f | _ \<Rightarrow> Some now),
                    content = b\<rparr>)"

definition notify :: "string \<Rightarrow> string \<Rightarrow> int option \<Rightarrow> bytes \<Rightarrow> PendingRequestHandler \<Rightarrow> notification" where
  "notify k h st b handler =
     (case handler of
        ResolvePromise p \<Rightarrow> Resolved p b
      | URL u \<Rightarrow> ReplyStarted u b k h (case st of None \<Rightarrow> ''NaN'' | Some v \<Rightarrow> String_js v))"

text \<open>\<open>Number(request.headers.get('x-status'))\<close>: a missing header is \<open>null\<close>, which
  is \<open>0\<close>.\<close>

definition x_status :: "Request \<Rightarrow> int option" where
  "x_status request =
     (case map_of (req_headers request) ''x-status'' of
        None \<Rightarrow> Some 0
      | Some v \<Rightarrow> Number_js v)"

definition handleRequestResponse :: "Request \<Rightarrow> string \<Rightarrow> int \<Rightarrow> State \<Rightarrow> Response \<times> State" where
  "handleRequestResponse request k now s =
     (case map_of (REQUESTS s) k of
        None \<Rightarrow> (NOT_FOUND, s)
      | Some req \<Rightarrow>
          (let b = arrayBuffer request;
               st = x_status request;
               (client, s1) = getClient request now s;
               s2 = (case client of
                       None \<Rightarrow> s1
                     | Some c \<Rightarrow>
                         s1\<lparr>CLIENTS := AList.update (cid c) (c\<lparr>finished := finished c + 1\<rparr>) (CLIENTS s1)\<rparr>);
               s3 = (if st = Some 200 then s2\<lparr>files := writeFile k b now (files s2)\<rparr> else s2);
               s4 = s3\<lparr>notified := notified s3 @ map (notify k (href req) st b) (handlers req)\<rparr>
           in (EMPTY, s4\<lparr>REQUESTS := AList.delete k (REQUESTS s4)\<rparr>)))"

subsection \<open>Status, dispatch and the router\<close>

definition handleGetStatus :: "int \<Rightarrow> State \<Rightarrow> Response" where
  "handleGetStatus now s =
     \<lparr>status = 200,
      resp_headers = [(''content-type'', ''application/json'')],
      resp_body =
        StatusJson (map snd (CLIENTS s))
          (map (\<lambda>(k, v). (k, decodeTimers (Some v) now)) (localStorage s))
          (map (\<lambda>(k, r). \<lparr>rs_queue = queue r, rs_href = href r,
                            rs_createdAt = createdAt r, rs_startedAt = startedAt r\<rparr>) (REQUESTS s))
          (dispatcheStartAt s)\<rparr>"

definition handleRequestNextInQueue :: "Request \<Rightarrow> int \<Rightarrow> State \<Rightarrow> (error + Response) \<times> State" where
  "handleRequestNextInQueue request now s =
     (case getClient request now s of
        (None, s1) \<Rightarrow> (Inr (fail 400 ''expect the x-client-id header to be set''), s1)
      | (Some client, s1) \<Rightarrow>
          (case getNextInQueue (cid client) now s1 of
             Inl e \<Rightarrow> (Inl e, s1)
           | Inr ((None, count), s2) \<Rightarrow> (Inr EMPTY, s2)
           | Inr ((Some next, count), s2) \<Rightarrow>
               (let s3 = s2\<lparr>CLIENTS := AList.update (cid client) (client\<lparr>started := started client + 1\<rparr>) (CLIENTS s2)\<rparr>;
                    retried = (case startedAt next of None \<Rightarrow> False | Some t \<Rightarrow> t \<noteq> 0);
                    next' = next\<lparr>attempts := (if retried then attempts next + 1 else attempts next),
                                 startedAt := Some now\<rparr>
                in (Inr \<lparr>status = 200,
                         resp_headers = [(''content-type'', ''application/json'')],
                         resp_body = DispatchJson (key next) (href next) (headers next) count\<rparr>,
                    s3\<lparr>REQUESTS := AList.update (key next) next' (REQUESTS s3)\<rparr>))))"

definition httpHandler ::
  "(string \<Rightarrow> string) \<Rightarrow> int \<Rightarrow> rat \<Rightarrow> Request \<Rightarrow> State \<Rightarrow> (error + Response) \<times> State" where
  "httpHandler getKey now perfNow request s =
     (if req_method request = ''POST'' then
        (if length (url_pathname request) > 1
         then (case handleRequestResponse request (drop 1 (url_pathname request)) now s of
                 (r, s') \<Rightarrow> (Inr r, s'))
         else (case handleRequestQueue getKey now perfNow request s of
                 (r, s') \<Rightarrow> (Inr r, s')))
      else if req_method request = ''GET'' then
        (if url_pathname request = ''/status'' \<or> url_pathname request = ''/status/''
         then (Inr (handleGetStatus now s), s)
         else handleRequestNextInQueue request now s)
      else (Inr NOT_FOUND, s))"

definition cleanupLocalStorageTimers :: "int \<Rightarrow> State \<Rightarrow> State" where
  "cleanupLocalStorageTimers now s =
     s\<lparr>localStorage := foldl (cleanup_entry now) (localStorage s) (map fst (localStorage s))\<rparr>"

subsection \<open>Start-up\<close>

text \<open>The module's top level: the sweep of the persisted cooldowns, then the four
  seed queues with their aliases.\<close>

definition seeds :: "(string \<times> int \<times> string list) list" where
  "seeds =
     [(''goodreads.com'', 30000, [''www.goodreads.com'']),
      (''beeceptor.com'', 1000, []),
      (''annas-archive.org'', 60000, [''annas-archive.se'', ''annas-archive.li'']),
      (''theaudiobookbay.se'', 40000, [''185.247.224.117'', ''audiobookbay.is'', ''audiobookbay.lu''])]"

definition boot :: "(string \<times> string) list \<Rightarrow> (string \<Rightarrow> open_result) \<Rightarrow> int \<Rightarrow> State" where
  "boot store fs now =
     foldl (\<lambda>s (nm, dl, aliases). snd (registerQueue nm dl aliases s))
       (cleanupLocalStorageTimers now
          \<lparr>QUEUES = [], REQUESTS = [], CLIENTS = [], localStorage = store, files = fs,
           promises = 0, notified = [], dispatcheStartAt = now\<rparr>)
       seeds"

subsection \<open>The properties, in the words of the specification\<close>

text \<open>A cooldown entry survives decoding when its time is not zero and lies after now.\<close>

definition live :: "int \<Rightarrow> string \<times> int \<Rightarrow> bool" where
  "live now e = (snd e \<noteq> 0 \<and> snd e > now)"

text \<open>A \<open>TimersInfo\<close> object has each name once; the names that the codec can carry are
  not empty and hold no comma.\<close>

definition wellformed_names :: "TimersInfo \<Rightarrow> bool" where
  "wellformed_names t =
     (distinct (map fst t) \<and> list_all (\<lambda>e. fst e \<noteq> [] \<and> CHR '','' \<notin> set (fst e)) t)"


text \<open>The freshness policy for a cache entry: a regular file; and, when the caller gives
  a (non-zero) \<open>expire\<close>, a date of the file that is less than \<open>expire\<close> old.\<close>

definition fresh :: "FsFile \<Rightarrow> int option \<Rightarrow> int \<Rightarrow> bool" where
  "fresh f ex now =
     (isFile f \<and>
      (case ex of
         None \<Rightarrow> True
       | Some e \<Rightarrow> e = 0 \<or> (case cachedDate f of None \<Rightarrow> False | Some t \<Rightarrow> now < t + e)))"



subsection \<open>Scenarios\<close>

text \<open>A stand-in for the digest, and a cache that holds one body written at time 1000
  for \<open>https://beeceptor.com/x?q=1\<close>.\<close>

definition example_getKey :: "string \<Rightarrow> string" where
  "example_getKey t = ''3vLiLPeZ''"

definition cache_key :: string where
  "cache_key = ''beeceptor.com/3vLiLPeZ''"

definition cached_body :: bytes where
  "cached_body = [104, 105]"

definition no_files :: "string \<Rightarrow> open_result" where
  "no_files path = NotFound"

definition cached_file :: FsFile where
  "cached_file = \<lparr>isFile = True, mtime = Some 1000, birthtime = Some 1000, content = cached_body\<rparr>"

definition cached_files :: "string \<Rightarrow> open_result" where
  "cached_files = no_files(cache_key := Opened cached_file)"

definition webhook :: string where
  "webhook = ''https://valid.domain.tld/webhook''"

text \<open>The pending request of that URL, as \<open>push\<close> makes it at time 1, with the given
  handlers.\<close>

definition waiting :: "PendingRequestHandler list \<Rightarrow> PendingRequest" where
  "waiting hs =
     \<lparr>key = cache_key, href = ''https://beeceptor.com/x?q=1'', headers = None, createdAt = 1,
      startedAt = None, queue = ''beeceptor.com'', handlers = hs, attempts = 0\<rparr>"

definition beeceptor :: RequestQueue where
  "beeceptor = \<lparr>name = ''beeceptor.com'', delay = 1000\<rparr>"

definition post_body :: "int option \<Rightarrow> string option \<Rightarrow> PostBody" where
  "post_body e r =
     \<lparr>pathname = ''/x'', search = ''?q=1'', post_href = ''https://beeceptor.com/x?q=1'',
      expire = e, post_headers = None, reply = r\<rparr>"

definition enqueue_request :: "int option \<Rightarrow> string option \<Rightarrow> Request" where
  "enqueue_request e r =
     \<lparr>req_method = ''POST'', url_pathname = ''/'', req_headers = [], arrayBuffer = [],
      json = Some (''beeceptor.com'', post_body e r)\<rparr>"

definition get_request :: "string \<Rightarrow> (string \<times> string) list \<Rightarrow> Request" where
  "get_request path hs =
     \<lparr>req_method = ''GET'', url_pathname = path, req_headers = hs, arrayBuffer = [], json = None\<rparr>"

definition client_get :: "string \<Rightarrow> Request" where
  "client_get path = get_request path [(''x-client-id'', ''aF7my75$'')]"

definition delivery_request :: "string \<Rightarrow> string \<Rightarrow> bytes \<Rightarrow> Request" where
  "delivery_request k st b =
     \<lparr>req_method = ''POST'', url_pathname = CHR ''/'' # k,
      req_headers = [(''x-client-id'', ''aF7my75$''), (''x-status'', st)],
      arrayBuffer = b, json = None\<rparr>"

text \<open>The cached body is stale for a caller that asks for ten milliseconds of
  freshness at time 5000: the request is enqueued.\<close>

definition stale_enqueued :: State where
  "stale_enqueued =
     snd (httpHandler example_getKey 5000 1 (enqueue_request (Some 10) None) (boot [] cached_files 0))"

text \<open>Nothing cached; a caller that holds a stream and a caller with a webhook wait
  for the same key.\<close>

definition two_waiters :: State where
  "two_waiters =
     snd (httpHandler example_getKey 11 2
            (enqueue_request None (Some webhook))
            (snd (httpHandler example_getKey 10 1 (enqueue_request None None) (boot [] no_files 0))))"

text \<open>A table of four requests at time 20000 and a client whose cooldown for one queue
  is pending and for another has run out.\<close>

definition pending :: "string \<Rightarrow> string \<Rightarrow> rat \<Rightarrow> int option \<Rightarrow> string \<times> PendingRequest" where
  "pending q d created strt =
     (q @ CHR ''/'' # d,
      \<lparr>key = q @ CHR ''/'' # d, href = ''https://'' @ q, headers = None, createdAt = created,
       startedAt = strt, queue = q, handlers = [ResolvePromise 0], attempts = 0\<rparr>)"

definition busy_table :: State where
  "busy_table =
     (boot [(''aF7my75$'', ''annas-archive.org,25000,goodreads.com,100'')] no_files 0)
       \<lparr>REQUESTS :=
          [pending ''goodreads.com'' ''a'' 3 None,
           pending ''beeceptor.com'' ''b'' 1 (Some 15000),
           pending ''beeceptor.com'' ''c'' 2 (Some 5000),
           pending ''annas-archive.org'' ''d'' 0 None]\<rparr>"

text \<open>The same client when the only request waits in the queue that is cooling down.\<close>

definition cooling_state :: State where
  "cooling_state = busy_table\<lparr>REQUESTS := [pending ''annas-archive.org'' ''d'' 0 None]\<rparr>"

text \<open>A webhook that answers 500 once and 200 from then on.\<close>

definition fails_once :: "nat \<Rightarrow> nat" where
  "fails_once n = (if n = 0 then 500 else 200)"

section \<open>Verification\<close>

subsection \<open>The codec\<close>


lemma of_char_digit_char: "d < 10 \<Longrightarrow> (of_char (digit_char d) :: nat) = 48 + d"
  by (simp add: digit_char_def)

lemma is_digit_digit_char: "d < 10 \<Longrightarrow> is_digit (digit_char d)"
  by (simp add: is_digit_def of_char_digit_char)

lemma is_digit_not_comma: "is_digit c \<Longrightarrow> c \<noteq> CHR '',''"
  by (auto simp: is_digit_def)

lemma is_digit_not_sign: "is_digit c \<Longrightarrow> c \<noteq> CHR ''-'' \<and> c \<noteq> CHR ''+''"
  by (auto simp: is_digit_def)

lemma show_nat_digits: "list_all is_digit (show_nat n)"
proof (induction n rule: show_nat.induct)
  case (1 n)
  show ?case
  proof (cases "n < 10")
    case True
    then show ?thesis by (subst show_nat.simps) (simp add: is_digit_digit_char)
  next
    case False
    with 1 show ?thesis by (subst show_nat.simps) (simp add: is_digit_digit_char)
  qed
qed

lemma show_nat_nonempty: "show_nat n \<noteq> []"
  by (subst show_nat.simps) simp

lemma digits_value_snoc: "digits_value (s @ [c]) = 10 * digits_value s + (of_char c - 48)"
  by (simp add: digits_value_def)

lemma digits_value_show_nat: "digits_value (show_nat n) = n"
proof (induction n rule: show_nat.induct)
  case (1 n)
  show ?case
  proof (cases "n < 10")
    case True
    then show ?thesis
      by (subst show_nat.simps) (simp add: digits_value_def of_char_digit_char)
  next
    case False
    with 1 have "digits_value (show_nat (n div 10)) = n div 10" by simp
    with False show ?thesis
      by (subst show_nat.simps) (simp add: digits_value_snoc of_char_digit_char)
  qed
qed

lemma Number_js_digits:
  assumes "s \<noteq> []" "list_all is_digit s"
  shows "Number_js s = Some (int (digits_value s))"
proof -
  from assms obtain c cs where s: "s = c # cs" by (cases s) auto
  with assms have "is_digit c" by simp
  then have "c \<noteq> CHR ''-''" "c \<noteq> CHR ''+''" using is_digit_not_sign by auto
  with s assms show ?thesis by (simp add: Number_js_def)
qed

lemma Number_js_String_js: "Number_js (String_js v) = Some v"
proof (cases "v < 0")
  case True
  then show ?thesis
    by (simp add: String_js_def Number_js_def show_nat_nonempty show_nat_digits digits_value_show_nat)
next
  case False
  then show ?thesis
    by (simp add: String_js_def Number_js_digits show_nat_nonempty show_nat_digits digits_value_show_nat)
qed

lemma String_js_no_comma: "CHR '','' \<notin> set (String_js v)"
proof -
  have "CHR '','' \<notin> set (show_nat n)" for n
    using show_nat_digits [of n] is_digit_not_comma by (auto simp: list_all_iff)
  then show ?thesis by (simp add: String_js_def)
qed

lemma decode_loop_token:
  "CHR '','' \<notin> set w \<Longrightarrow>
   decode_loop now (w @ rest) (q, cur, t) = decode_loop now rest (q, cur @ w, t)"
  by (induction w arbitrary: cur) auto

lemma at_separator_name: "k \<noteq> [] \<Longrightarrow> at_separator now ([], k, t) = (k, [], t)"
  by (simp add: at_separator_def)

lemma at_separator_value:
  "k \<noteq> [] \<Longrightarrow> at_separator now (k, String_js v, t) =
     ([], [], if v \<noteq> 0 \<and> v > now then AList.update k v t else t)"
  by (simp add: at_separator_def Number_js_String_js)

lemma decode_loop_entry:
  assumes "k \<noteq> []" "CHR '','' \<notin> set k"
  shows "decode_loop now (k @ CHR '','' # String_js v @ CHR '','' # rest) ([], [], t) =
         decode_loop now rest ([], [], if v \<noteq> 0 \<and> v > now then AList.update k v t else t)"
proof -
  have "decode_loop now (k @ CHR '','' # String_js v @ CHR '','' # rest) ([], [], t) =
        decode_loop now (CHR '','' # String_js v @ CHR '','' # rest) ([], k, t)"
    using decode_loop_token [OF assms(2), of now _ "[]" "[]" t] by simp
  also have "\<dots> = decode_loop now (String_js v @ CHR '','' # rest) (k, [], t)"
    using assms(1) by (simp add: at_separator_name)
  also have "\<dots> = decode_loop now (CHR '','' # rest) (k, String_js v, t)"
    using decode_loop_token [OF String_js_no_comma, of now v _ k "[]" t] by simp
  also have "\<dots> = decode_loop now rest ([], [], if v \<noteq> 0 \<and> v > now then AList.update k v t else t)"
    using assms(1) by (simp add: at_separator_value)
  finally show ?thesis .
qed

lemma decode_loop_last_entry:
  assumes "k \<noteq> []" "CHR '','' \<notin> set k"
  shows "decode_loop now (k @ CHR '','' # String_js v) ([], [], t) =
         (if v \<noteq> 0 \<and> v > now then AList.update k v t else t)"
proof -
  have "decode_loop now (k @ CHR '','' # String_js v) ([], [], t) =
        decode_loop now (CHR '','' # String_js v) ([], k, t)"
    using decode_loop_token [OF assms(2), of now _ "[]" "[]" t] by simp
  also have "\<dots> = decode_loop now (String_js v @ []) (k, [], t)"
    using assms(1) by (simp add: at_separator_name)
  also have "\<dots> = decode_loop now [] (k, String_js v, t)"
    using decode_loop_token [OF String_js_no_comma, of now v "[]" k "[]" t] by simp
  also have "\<dots> = (if v \<noteq> 0 \<and> v > now then AList.update k v t else t)"
    using assms(1) by (simp add: at_separator_value)
  finally show ?thesis .
qed

lemma update_fresh: "k \<notin> fst ` set t \<Longrightarrow> AList.update k v t = t @ [(k, v)]"
  by (induction t) auto

lemma decode_loop_encodeTimers:
  "t \<noteq> [] \<Longrightarrow> wellformed_names (acc @ t) \<Longrightarrow>
   decode_loop now (encodeTimers t) ([], [], acc) = acc @ filter (live now) t"
proof (induction t arbitrary: acc rule: induct_list012)
  case 1
  then show ?case by simp
next
  case (2 e)
  obtain k v where e: "e = (k, v)" by (cases e)
  with 2 have k: "k \<noteq> []" "CHR '','' \<notin> set k" "k \<notin> fst ` set acc"
    by (auto simp: wellformed_names_def)
  show ?case
    using decode_loop_last_entry [OF k(1,2)] update_fresh [OF k(3)]
    by (simp add: e encodeTimers_def live_def)
next
  case (3 e e' es)
  obtain k v where e: "e = (k, v)" by (cases e)
  with 3 have k: "k \<noteq> []" "CHR '','' \<notin> set k" "k \<notin> fst ` set acc"
    by (auto simp: wellformed_names_def)
  have enc: "encodeTimers (e # e' # es) = k @ CHR '','' # String_js v @ CHR '','' # encodeTimers (e' # es)"
    by (simp add: encodeTimers_def e)
  let ?acc' = "if v \<noteq> 0 \<and> v > now then AList.update k v acc else acc"
  have acc': "?acc' = acc @ filter (live now) [e]"
    using update_fresh [OF k(3)] by (simp add: e live_def)
  have wf: "wellformed_names (?acc' @ e' # es)"
    using 3(4) by (auto simp: acc' e wellformed_names_def)
  have "decode_loop now (encodeTimers (e # e' # es)) ([], [], acc) =
        decode_loop now (encodeTimers (e' # es)) ([], [], ?acc')"
    unfolding enc using decode_loop_entry [OF k(1,2)] by simp
  also have "\<dots> = ?acc' @ filter (live now) (e' # es)"
    using 3(2) [OF _ wf] by simp
  also have "\<dots> = acc @ filter (live now) (e # e' # es)"
    unfolding acc' by simp
  finally show ?case .
qed

lemma encodeTimers_nonempty: "t \<noteq> [] \<Longrightarrow> encodeTimers t \<noteq> []"
  by (induction t rule: induct_list012) (auto simp: encodeTimers_def)

lemma decode_encode:
  "wellformed_names t \<Longrightarrow> decodeTimers (Some (encodeTimers t)) now = filter (live now) t"
proof (cases "t = []")
  case True
  then show ?thesis by (simp add: decodeTimers_def encodeTimers_def)
next
  case False
  assume "wellformed_names t"
  with False show ?thesis
    using decode_loop_encodeTimers [of t "[]" now]
    by (simp add: decodeTimers_def encodeTimers_nonempty)
qed

lemma digit_char_eval:
  "digit_char 0 = CHR ''0''" "digit_char 1 = CHR ''1''" "digit_char 2 = CHR ''2''"
  "digit_char 3 = CHR ''3''" "digit_char 4 = CHR ''4''" "digit_char 5 = CHR ''5''"
  "digit_char 6 = CHR ''6''" "digit_char 7 = CHR ''7''" "digit_char 8 = CHR ''8''"
  "digit_char 9 = CHR ''9''" "digit_char (Suc 0) = CHR ''1''"
  by code_simp+

lemma String_js_5: "String_js 5 = ''5''"
  by (simp add: String_js_def show_nat.simps digit_char_eval)

text \<open>
  C3 (as amended). For every \<open>TimersInfo\<close> object whose queue names are not empty and hold
  no comma, and for every now, decoding the encoding gives back, in order and value for
  value, exactly the entries whose time is not zero and lies after now; the entries with
  a time at or before now, or zero, are dropped. Encoding the empty object yields the
  empty string.
\<close>

theorem decode_encode_roundtrip:
  "(wellformed_names t \<longrightarrow> decodeTimers (Some (encodeTimers t)) now = filter (live now) t) \<and>
   encodeTimers [] = []"
  using decode_encode [of t now] by (simp add: encodeTimers_def)

text \<open>C3, instance: at 20000 the entry for 25000 survives; the entry for 100 and the
  entry with time zero are dropped.\<close>

theorem decode_encode_roundtrip_witness:
  "wellformed_names [(''goodreads.com'', 25000), (''beeceptor.com'', 100), (''annas-archive.org'', 0)] \<and>
   decodeTimers (Some (encodeTimers [(''goodreads.com'', 25000), (''beeceptor.com'', 100), (''annas-archive.org'', 0)])) 20000
     = [(''goodreads.com'', 25000)]"
  using decode_encode_roundtrip [of "[(''goodreads.com'', 25000), (''beeceptor.com'', 100), (''annas-archive.org'', 0)]" 20000]
  by (simp add: wellformed_names_def live_def)

text \<open>
  C3 as stated fails for the empty queue name (the name of the queue of a URL without a
  host): the decoder takes an empty \<open>queueName\<close> for "no name read yet", reads the time
  as a name and stores nothing, although the time 5 lies after now = 0.
\<close>

theorem empty_queue_name_lost:
  "encodeTimers [('''', 5)] = '',5'' \<and>
   decodeTimers (Some '',5'') 0 = [] \<and>
   filter (live 0) [('''', 5)] = [('''', 5)] \<and>
   decodeTimers (Some (encodeTimers [('''', 5)])) 0 \<noteq> filter (live 0) [('''', 5)]"
  by (simp add: decodeTimers_def encodeTimers_def String_js_5 at_separator_def live_def)

subsection \<open>The scan of the scheduler\<close>













subsection \<open>Delivery\<close>

lemma getClient_frame:
  "REQUESTS (snd (getClient request now s)) = REQUESTS s"
  "files (snd (getClient request now s)) = files s"
  "notified (snd (getClient request now s)) = notified s"
  "localStorage (snd (getClient request now s)) = localStorage s"
  "QUEUES (snd (getClient request now s)) = QUEUES s"
  by (simp_all add: getClient_def Let_def split: option.splits)

lemma writeFile_content:
  "writeFile k b now fs k = Opened \<lparr>isFile = True, mtime = Some now,
      birthtime = (case fs k of Opened f \<Rightarrow> birthtime f | _ \<Rightarrow> Some now), content = b\<rparr>"
  by (simp add: writeFile_def)

text \<open>
  C5. A delivery for a key that has a pending request is answered 204; the cache file at
  the key is written exactly when \<open>x-status\<close> decodes to 200 (otherwise no file
  changes), and after the write the file holds the delivered bytes; whatever the status,
  every handler of the request is notified, in order, and the request is no longer in
  the table. The router hands \<open>POST /<key>\<close> to this handler.
\<close>

theorem delivery_cache_write:
  assumes "map_of (REQUESTS s) k = Some req"
  shows "fst (handleRequestResponse request k now s) = EMPTY \<and>
         status EMPTY = 204 \<and>
         files (snd (handleRequestResponse request k now s)) =
           (if x_status request = Some 200 then writeFile k (arrayBuffer request) now (files s)
            else files s) \<and>
         (x_status request = Some 200 \<longrightarrow>
            (case files (snd (handleRequestResponse request k now s)) k of
               Opened f \<Rightarrow> content f = arrayBuffer request
             | _ \<Rightarrow> False)) \<and>
         notified (snd (handleRequestResponse request k now s)) =
           notified s @ map (notify k (href req) (x_status request) (arrayBuffer request)) (handlers req) \<and>
         map_of (REQUESTS (snd (handleRequestResponse request k now s))) k = None \<and>
         (req_method request = ''POST'' \<and> url_pathname request = CHR ''/'' # k \<and> k \<noteq> [] \<longrightarrow>
            httpHandler g now p request s = (Inr EMPTY, snd (handleRequestResponse request k now s)))"
proof -
  obtain c s1 where gc: "getClient request now s = (c, s1)" by (cases "getClient request now s")
  with getClient_frame [of request now s]
  have fr: "REQUESTS s1 = REQUESTS s" "files s1 = files s" "notified s1 = notified s" by simp_all
  have main: "fst (handleRequestResponse request k now s) = EMPTY \<and>
         files (snd (handleRequestResponse request k now s)) =
           (if x_status request = Some 200 then writeFile k (arrayBuffer request) now (files s)
            else files s) \<and>
         notified (snd (handleRequestResponse request k now s)) =
           notified s @ map (notify k (href req) (x_status request) (arrayBuffer request)) (handlers req) \<and>
         map_of (REQUESTS (snd (handleRequestResponse request k now s))) k = None"
    using assms gc fr
    by (cases c) (simp_all add: handleRequestResponse_def Let_def AList.delete_conv')
  then have route: "req_method request = ''POST'' \<and> url_pathname request = CHR ''/'' # k \<and> k \<noteq> [] \<longrightarrow>
      httpHandler g now p request s = (Inr EMPTY, snd (handleRequestResponse request k now s))"
    by (cases "handleRequestResponse request k now s") (auto simp: httpHandler_def)
  from main route show ?thesis
    by (simp add: EMPTY_def writeFile_content)
qed

text \<open>
  C6. A delivery for a key that has no pending request is answered 404 and the state
  after it is the state before it: no file, no handler notification, no table and no
  client counter changes. The same holds through the router for \<open>POST /<key>\<close>.
\<close>

theorem delivery_unknown_key:
  assumes "map_of (REQUESTS s) k = None"
  shows "handleRequestResponse request k now s = (NOT_FOUND, s) \<and>
         status NOT_FOUND = 404 \<and>
         (req_method request = ''POST'' \<and> url_pathname request = CHR ''/'' # k \<and> k \<noteq> [] \<longrightarrow>
            httpHandler g now p request s = (Inr NOT_FOUND, s))"
  using assms by (auto simp: handleRequestResponse_def NOT_FOUND_def httpHandler_def)

subsection \<open>Dispatch and the router\<close>

lemma getNextInQueue_none:
  "getNextInQueue i now s = Inr ((None, n), s') \<Longrightarrow> s' = s"
  by (auto simp: getNextInQueue_def Let_def split: prod.splits option.splits)

lemma handleRequestNextInQueue_204:
  assumes "handleRequestNextInQueue request now s = (Inr r, s')" "status r = 204"
  shows "localStorage s' = localStorage s"
proof -
  obtain c s1 where g: "getClient request now s = (c, s1)" by (cases "getClient request now s")
  with getClient_frame(4) [of request now s] have fr: "localStorage s1 = localStorage s" by simp
  show ?thesis
  proof (cases c)
    case None
    with assms g show ?thesis by (auto simp: handleRequestNextInQueue_def fail_def)
  next
    case (Some client)
    show ?thesis
    proof (cases "getNextInQueue (cid client) now s1")
      case (Inl e)
      with assms g Some show ?thesis by (simp add: handleRequestNextInQueue_def)
    next
      case (Inr res)
      obtain nx n s2 where res: "res = ((nx, n), s2)" by (cases res) auto
      show ?thesis
      proof (cases nx)
        case None
        with Inr res have "s2 = s1" using getNextInQueue_none by blast
        with assms g Some Inr res None fr show ?thesis
          by (auto simp: handleRequestNextInQueue_def)
      next
        case (Some a)
        with assms g \<open>c = Some client\<close> Inr res show ?thesis
          by (auto simp: handleRequestNextInQueue_def Let_def)
      qed
    qed
  qed
qed

text \<open>
  C10. A \<open>GET\<close> that is answered 204 (no eligible request) leaves the persisted cooldown
  store as it was, entry for entry: the scheduler writes the store only when it selects
  a request, so cooldowns that have run out are not pruned by an unsuccessful scan.
\<close>

theorem no_dispatch_keeps_cooldowns:
  "(handleRequestNextInQueue request now s = (Inr r, s') \<and> status r = 204 \<longrightarrow>
      localStorage s' = localStorage s) \<and>
   (req_method request = ''GET'' \<and> httpHandler g now p request s = (Inr r, s') \<and> status r = 204 \<longrightarrow>
      localStorage s' = localStorage s)"
  using handleRequestNextInQueue_204 [of request now s r s']
  by (auto simp: httpHandler_def split: if_splits)

text \<open>
  C9 (as amended). A request whose method is neither \<open>POST\<close> nor \<open>GET\<close> is answered with
  the 404 response. A \<open>GET\<close> for \<open>/status\<close> or \<open>/status/\<close> is answered with the status;
  a \<open>GET\<close> for any other path is handled exactly as \<open>GET /\<close>, the dispatch of the next
  request.
\<close>

theorem router_cases:
  "(req_method request \<noteq> ''POST'' \<and> req_method request \<noteq> ''GET'' \<longrightarrow>
      httpHandler g now p request s = (Inr NOT_FOUND, s)) \<and>
   status NOT_FOUND = 404 \<and>
   (req_method request = ''GET'' \<and> url_pathname request \<noteq> ''/status'' \<and>
    url_pathname request \<noteq> ''/status/'' \<longrightarrow>
      httpHandler g now p request s = handleRequestNextInQueue request now s) \<and>
   (req_method request = ''GET'' \<and>
    (url_pathname request = ''/status'' \<or> url_pathname request = ''/status/'') \<longrightarrow>
      httpHandler g now p request s = (Inr (handleGetStatus now s), s))"
  by (simp add: httpHandler_def NOT_FOUND_def)

subsection \<open>Enqueue\<close>

lemma buildResponse_response:
  "fst (buildResponse k rep s) =
     \<lparr>status = (if rep = None then 200 else 202),
      resp_headers = [(''x-request-key'', k)],
      resp_body = (if rep = None then PromiseStream (promises s) else NoBody)\<rparr>"
  by (simp add: buildResponse_def Let_def split: option.splits)

lemma buildResponse_handlers:
  "map_of (REQUESTS s) k = Some req \<Longrightarrow>
   map_of (REQUESTS (snd (buildResponse k rep s))) k =
     Some (req\<lparr>handlers := set_add (case rep of None \<Rightarrow> ResolvePromise (promises s) | Some u \<Rightarrow> URL u)
                                (handlers req)\<rparr>)"
  by (simp add: buildResponse_def Let_def AList.map_of_map_entry split: option.splits)

text \<open>
  C1 (as amended). On enqueue the coalescing table is consulted before the cache. When
  a pending request for the key exists it is joined, whatever the cache holds: the answer
  is 202 with the key header if a webhook was given and a streaming 200 otherwise, and
  the new handler is added to that request. Only when no pending request exists is a
  fresh cache entry streamed, with the \<open>x-from-cache\<close> header, and then the state does
  not change: no handler is attached and no request is created.
\<close>

theorem POST_table_before_cache:
  assumes "k = name q @ ''/'' @ g (pathname b @ search b)"
  shows "(map_of (REQUESTS s) k = Some req \<longrightarrow>
            POST g now p q b s = buildResponse k (reply b) s \<and>
            fst (POST g now p q b s) =
              \<lparr>status = (if reply b = None then 200 else 202),
               resp_headers = [(''x-request-key'', k)],
               resp_body = (if reply b = None then PromiseStream (promises s) else NoBody)\<rparr> \<and>
            map_of (REQUESTS (snd (POST g now p q b s))) k =
              Some (req\<lparr>handlers :=
                     set_add (case reply b of None \<Rightarrow> ResolvePromise (promises s) | Some u \<Rightarrow> URL u)
                       (handlers req)\<rparr>)) \<and>
         (map_of (REQUESTS s) k = None \<and> files s k = Opened f \<and> fresh f (expire b) now \<longrightarrow>
            POST g now p q b s =
              (\<lparr>status = 200, resp_headers = [(''x-from-cache'', k)], resp_body = FileStream (content f)\<rparr>, s))"
proof -
  have join: "POST g now p q b s = buildResponse k (reply b) s" if "map_of (REQUESTS s) k = Some req"
    using that assms by (simp add: POST_def Let_def)
  have cache: "POST g now p q b s = (from_cache k f, s)"
    if "map_of (REQUESTS s) k = None" "files s k = Opened f" "fresh f (expire b) now"
    using that assms by (auto simp: POST_def Let_def fresh_def split: option.splits)
  show ?thesis
    using join cache buildResponse_response [of k "reply b" s] buildResponse_handlers [of s k req "reply b"]
    by (auto simp: from_cache_def)
qed

text \<open>
  C8 (as amended). For an enqueue with a non-zero \<open>expire\<close>, no pending request for the
  key and a cache file with a date \<open>t\<close>: the cached body is served when
  \<open>now < t + expire\<close>, and the entry is a miss, leading to the enqueue, when
  \<open>now \<ge> t + expire\<close>; so the entry is a miss at the boundary \<open>now = t + expire\<close>.
\<close>

theorem POST_expire:
  assumes "k = name q @ ''/'' @ g (pathname b @ search b)"
    and "map_of (REQUESTS s) k = None"
    and "files s k = Opened f" "isFile f" "cachedDate f = Some t"
    and "expire b = Some e" "e \<noteq> 0"
  shows "POST g now p q b s =
           (if now < t + e then (from_cache k f, s)
            else buildResponse k (reply b) (push q p k (post_href b) (post_headers b) s)) \<and>
         (fst (POST g now p q b s) = from_cache k f \<longleftrightarrow> now < t + e)"
proof -
  have eq: "POST g now p q b s =
           (if now < t + e then (from_cache k f, s)
            else buildResponse k (reply b) (push q p k (post_href b) (post_headers b) s))"
    using assms by (simp add: POST_def Let_def)
  have "fst (buildResponse k rep s') \<noteq> from_cache k f" for rep s'
    by (simp add: buildResponse_response from_cache_def)
  with eq show ?thesis by simp
qed

subsection \<open>The webhook retry loop\<close>

lemma sendReply_terminal:
  "recipient a \<noteq> 500 \<Longrightarrow> sendReply (Suc fuel) recipient a = Some [Fetched (recipient a)]"
  by simp

lemma sendReply_retry:
  "recipient a = 500 \<Longrightarrow>
   sendReply (Suc fuel) recipient a =
     map_option (\<lambda>rest. Fetched 500 # (if a \<noteq> 0 then [SetTimeout (a * 750)] else []) @ rest)
       (sendReply fuel recipient (Suc a))"
  by (simp split: option.splits)

lemma sendReply_all_500: "(\<And>n. recipient n = 500) \<Longrightarrow> sendReply fuel recipient a = None"
  by (induction fuel arbitrary: a) simp_all

text \<open>
  C7, at the webhook that answers 500 and then 200. The loop sends two POSTs, as the
  claim says, but sets no timer between them: \<open>attempts\<close> is still 0 when the wait is
  decided, so the first retry follows at once and not after 750 ms.
\<close>

theorem first_retry_without_backoff:
  "sendReply (Suc (Suc fuel)) fails_once 0 = Some [Fetched 500, Fetched 200]"
  by (simp add: fails_once_def)

subsection \<open>Scenario states\<close>

lemmas scenario_defs = cached_file_def webhook_def waiting_def client_get_def

lemma boot_eval:
  "boot store fs now =
     \<lparr>QUEUES =
        [(''goodreads.com'', \<lparr>name = ''goodreads.com'', delay = 30000\<rparr>),
         (''www.goodreads.com'', \<lparr>name = ''goodreads.com'', delay = 30000\<rparr>),
         (''beeceptor.com'', \<lparr>name = ''beeceptor.com'', delay = 1000\<rparr>),
         (''annas-archive.org'', \<lparr>name = ''annas-archive.org'', delay = 60000\<rparr>),
         (''annas-archive.se'', \<lparr>name = ''annas-archive.org'', delay = 60000\<rparr>),
         (''annas-archive.li'', \<lparr>name = ''annas-archive.org'', delay = 60000\<rparr>),
         (''theaudiobookbay.se'', \<lparr>name = ''theaudiobookbay.se'', delay = 40000\<rparr>),
         (''185.247.224.117'', \<lparr>name = ''theaudiobookbay.se'', delay = 40000\<rparr>),
         (''audiobookbay.is'', \<lparr>name = ''theaudiobookbay.se'', delay = 40000\<rparr>),
         (''audiobookbay.lu'', \<lparr>name = ''theaudiobookbay.se'', delay = 40000\<rparr>)],
      REQUESTS = [], CLIENTS = [],
      localStorage = foldl (cleanup_entry now) store (map fst store),
      files = fs, promises = 0, notified = [], dispatcheStartAt = now\<rparr>"
  by (simp add: scenario_defs boot_def seeds_def registerQueue_def cleanupLocalStorageTimers_def Let_def)

lemma decode_example:
  "decodeTimers (Some ''annas-archive.org,25000,goodreads.com,100'') now =
     (if now < 100 then [(''annas-archive.org'', 25000), (''goodreads.com'', 100)]
      else if now < 25000 then [(''annas-archive.org'', 25000)] else [])"
  by (simp add: scenario_defs decodeTimers_def at_separator_def Number_js_def is_digit_def digits_value_def)

lemma encode_example:
  "encodeTimers [(''annas-archive.org'', 25000), (''goodreads.com'', 100)] = ''annas-archive.org,25000,goodreads.com,100''"
  "encodeTimers [(''annas-archive.org'', 25000), (''beeceptor.com'', 21000)] = ''annas-archive.org,25000,beeceptor.com,21000''"
  by (simp_all add: encodeTimers_def String_js_def show_nat.simps digit_char_eval)

lemma busy_table_eval:
  "localStorage busy_table = [(''aF7my75$'', ''annas-archive.org,25000,goodreads.com,100'')]"
  "REQUESTS busy_table = [pending ''goodreads.com'' ''a'' 3 None,
           pending ''beeceptor.com'' ''b'' 1 (Some 15000),
           pending ''beeceptor.com'' ''c'' 2 (Some 5000),
           pending ''annas-archive.org'' ''d'' 0 None]"
  "QUEUES busy_table = QUEUES (boot [] no_files 0)"
  "CLIENTS busy_table = []"
  by (simp_all add: busy_table_def boot_eval cleanup_entry_def decode_example encode_example)

lemma cooling_state_eval:
  "localStorage cooling_state = [(''aF7my75$'', ''annas-archive.org,25000,goodreads.com,100'')]"
  "REQUESTS cooling_state = [pending ''annas-archive.org'' ''d'' 0 None]"
  "CLIENTS cooling_state = []"
  by (simp_all add: cooling_state_def busy_table_eval)

lemma stale_enqueued_eval:
  "stale_enqueued =
     (boot [] cached_files 0)
       \<lparr>REQUESTS :=
          [(cache_key,
            waiting [ResolvePromise 0])],
        promises := 1\<rparr>"
  by (simp add: scenario_defs stale_enqueued_def httpHandler_def enqueue_request_def post_body_def handleRequestQueue_def
      boot_eval POST_def example_getKey_def cache_key_def cached_files_def no_files_def buildResponse_def
      push_def set_add_def cachedDate_def Let_def)

lemma two_waiters_eval:
  "two_waiters =
     (boot [] no_files 0)
       \<lparr>REQUESTS :=
          [(cache_key,
            waiting [ResolvePromise 0, URL webhook])],
        promises := 1\<rparr>"
  by (simp add: scenario_defs two_waiters_def httpHandler_def enqueue_request_def post_body_def handleRequestQueue_def
      boot_eval POST_def example_getKey_def cache_key_def no_files_def buildResponse_def
      push_def set_add_def Let_def)

subsection \<open>Instances\<close>


text \<open>C1, instances: a caller with a webhook joins the pending request although the cache
  holds the body; with no pending request the cached body is streamed and nothing changes.\<close>

theorem POST_table_before_cache_witness:
  "map_of (REQUESTS stale_enqueued) cache_key \<noteq> None \<and>
   fst (POST example_getKey 5001 2 beeceptor (post_body None (Some webhook)) stale_enqueued) =
     \<lparr>status = 202, resp_headers = [(''x-request-key'', cache_key)], resp_body = NoBody\<rparr> \<and>
   map_option handlers
     (map_of (REQUESTS (snd (POST example_getKey 5001 2 beeceptor
        (post_body None (Some webhook)) stale_enqueued))) cache_key) =
     Some [ResolvePromise 0, URL webhook] \<and>
   map_of (REQUESTS (boot [] cached_files 0)) cache_key = None \<and>
   fresh cached_file None 5001 \<and>
   POST example_getKey 5001 2 beeceptor (post_body None None) (boot [] cached_files 0) =
     (\<lparr>status = 200, resp_headers = [(''x-from-cache'', cache_key)], resp_body = FileStream cached_body\<rparr>,
      boot [] cached_files 0)"
  using POST_table_before_cache [of cache_key beeceptor example_getKey
      "post_body None (Some webhook)" stale_enqueued
      "waiting [ResolvePromise 0]"
      5001 2]
    POST_table_before_cache [of cache_key beeceptor example_getKey "post_body None None"
      "boot [] cached_files 0" _ 5001 2
      "cached_file"]
  by (simp add: scenario_defs stale_enqueued_eval boot_eval cache_key_def beeceptor_def example_getKey_def post_body_def
      cached_files_def no_files_def fresh_def set_add_def buildResponse_def Let_def)

text \<open>
  C1 as stated fails: the cache holds a body that is fresh for a caller without
  \<open>expire\<close>, but a request for the key is pending (enqueued by a caller for whom the body
  was stale), so the caller is not served from the cache: it gets the key header and a
  stream of the pending fetch, and its handler is added to the pending request.
\<close>

theorem cache_skipped_while_pending:
  "files stale_enqueued cache_key =
     Opened cached_file \<and>
   fresh cached_file None 5001 \<and>
   fst (httpHandler example_getKey 5001 2 (enqueue_request None None) stale_enqueued) =
     Inr \<lparr>status = 200, resp_headers = [(''x-request-key'', cache_key)], resp_body = PromiseStream 1\<rparr> \<and>
   map_option handlers
     (map_of (REQUESTS (snd (httpHandler example_getKey 5001 2 (enqueue_request None None) stale_enqueued)))
        cache_key) =
     Some [ResolvePromise 0, ResolvePromise 1]"
  by (simp add: scenario_defs stale_enqueued_eval boot_eval httpHandler_def enqueue_request_def post_body_def
      handleRequestQueue_def POST_def example_getKey_def cache_key_def cached_files_def no_files_def
      buildResponse_def set_add_def fresh_def Let_def)

text \<open>C8, instance: one millisecond before the boundary the cached body is served.\<close>

theorem POST_expire_witness:
  "map_of (REQUESTS (boot [] cached_files 0)) cache_key = None \<and>
   files (boot [] cached_files 0) cache_key =
     Opened cached_file \<and>
   POST example_getKey 1499 1 beeceptor (post_body (Some 500) None) (boot [] cached_files 0) =
     (\<lparr>status = 200, resp_headers = [(''x-from-cache'', cache_key)], resp_body = FileStream cached_body\<rparr>,
      boot [] cached_files 0)"
  using POST_expire [of cache_key beeceptor example_getKey "post_body (Some 500) None"
      "boot [] cached_files 0"
      "cached_file"
      1000 500 1499 1]
  by (simp add: scenario_defs boot_eval cache_key_def beeceptor_def example_getKey_def post_body_def
      cached_files_def no_files_def cachedDate_def from_cache_def)

text \<open>C8 as stated fails at the boundary: the file is dated 1000, \<open>expire\<close> is 500 and now
  is 1500; the body is not served from the cache, the request is enqueued.\<close>

theorem expire_boundary_enqueues:
  "cachedDate cached_file = Some 1000 \<and>
   files (boot [] cached_files 0) cache_key =
     Opened cached_file \<and>
   fst (httpHandler example_getKey (1000 + 500) 1 (enqueue_request (Some 500) None) (boot [] cached_files 0)) =
     Inr \<lparr>status = 200, resp_headers = [(''x-request-key'', cache_key)], resp_body = PromiseStream 0\<rparr> \<and>
   map_of (REQUESTS (snd (httpHandler example_getKey (1000 + 500) 1 (enqueue_request (Some 500) None)
      (boot [] cached_files 0)))) cache_key \<noteq> None"
  by (simp add: scenario_defs boot_eval httpHandler_def enqueue_request_def post_body_def
      handleRequestQueue_def POST_def example_getKey_def cache_key_def cached_files_def no_files_def
      buildResponse_def push_def set_add_def cachedDate_def Let_def)

text \<open>C9, instances: a \<open>DELETE\<close>, a \<open>GET /foo\<close> and a \<open>GET /status/\<close>.\<close>

theorem router_cases_witness:
  "httpHandler example_getKey 0 0
     \<lparr>req_method = ''DELETE'', url_pathname = ''/'', req_headers = [], arrayBuffer = [], json = None\<rparr>
     (boot [] no_files 0) = (Inr NOT_FOUND, boot [] no_files 0) \<and>
   httpHandler example_getKey 6000 3 (client_get ''/foo'') stale_enqueued =
     handleRequestNextInQueue (client_get ''/foo'') 6000 stale_enqueued \<and>
   httpHandler example_getKey 6000 3 (get_request ''/status/'' []) stale_enqueued =
     (Inr (handleGetStatus 6000 stale_enqueued), stale_enqueued)"
  using router_cases [of "\<lparr>req_method = ''DELETE'', url_pathname = ''/'', req_headers = [], arrayBuffer = [], json = None\<rparr>"
      example_getKey 0 0 "boot [] no_files 0"]
    router_cases [of "client_get ''/foo''" example_getKey 6000 3 stale_enqueued]
    router_cases [of "get_request ''/status/'' []" example_getKey 6000 3 stale_enqueued]
  by (simp add: scenario_defs get_request_def)

text \<open>C9 as stated fails: \<open>GET /foo\<close> is not answered 404, it is handed the pending
  request.\<close>

theorem get_other_path_dispatches:
  "fst (httpHandler example_getKey 6000 3 (client_get ''/foo'') stale_enqueued) =
     Inr \<lparr>status = 200, resp_headers = [(''content-type'', ''application/json'')],
          resp_body = DispatchJson cache_key ''https://beeceptor.com/x?q=1'' None 1\<rparr>"
  by (simp add: scenario_defs stale_enqueued_eval boot_eval httpHandler_def get_request_def handleRequestNextInQueue_def
      getClient_def js_or_def getNextInQueue_def scan_step_def decodeTimers_def cache_key_def Let_def)

text \<open>C5, instances: a delivery with status 200 and one with status 503 to a request
  with a stream waiter and a webhook waiter.\<close>

theorem delivery_cache_write_witness:
  "map_of (REQUESTS two_waiters) cache_key \<noteq> None \<and>
   x_status (delivery_request cache_key ''200'' [1, 2, 3]) = Some 200 \<and>
   files (snd (handleRequestResponse (delivery_request cache_key ''200'' [1, 2, 3]) cache_key 12 two_waiters)) cache_key =
     Opened \<lparr>isFile = True, mtime = Some 12, birthtime = Some 12, content = [1, 2, 3]\<rparr> \<and>
   notified (snd (handleRequestResponse (delivery_request cache_key ''200'' [1, 2, 3]) cache_key 12 two_waiters)) =
     [Resolved 0 [1, 2, 3],
      ReplyStarted webhook [1, 2, 3] cache_key ''https://beeceptor.com/x?q=1'' ''200''] \<and>
   x_status (delivery_request cache_key ''503'' [1, 2, 3]) = Some 503 \<and>
   files (snd (handleRequestResponse (delivery_request cache_key ''503'' [1, 2, 3]) cache_key 12 two_waiters)) = no_files \<and>
   notified (snd (handleRequestResponse (delivery_request cache_key ''503'' [1, 2, 3]) cache_key 12 two_waiters)) =
     [Resolved 0 [1, 2, 3],
      ReplyStarted webhook [1, 2, 3] cache_key ''https://beeceptor.com/x?q=1'' ''503''] \<and>
   map_of (REQUESTS (snd (handleRequestResponse (delivery_request cache_key ''503'' [1, 2, 3]) cache_key 12 two_waiters)))
     cache_key = None \<and>
   fst (httpHandler example_getKey 12 3 (delivery_request cache_key ''200'' [1, 2, 3]) two_waiters) = Inr EMPTY"
  using delivery_cache_write [of two_waiters cache_key
      "waiting [ResolvePromise 0, URL webhook]"
      "delivery_request cache_key ''200'' [1, 2, 3]" 12 example_getKey 3]
    delivery_cache_write [of two_waiters cache_key
      "waiting [ResolvePromise 0, URL webhook]"
      "delivery_request cache_key ''503'' [1, 2, 3]" 12]
  by (simp add: scenario_defs two_waiters_eval boot_eval x_status_def delivery_request_def Number_js_def is_digit_def
      digits_value_def writeFile_def no_files_def notify_def String_js_def show_nat.simps digit_char_eval
      cache_key_def)

text \<open>C6, instance: a delivery with status 200 for a key that nobody waits for.\<close>

theorem delivery_unknown_key_witness:
  "map_of (REQUESTS two_waiters) ''beeceptor.com/other'' = None \<and>
   handleRequestResponse (delivery_request ''beeceptor.com/other'' ''200'' [1, 2, 3]) ''beeceptor.com/other'' 12
     two_waiters = (NOT_FOUND, two_waiters) \<and>
   httpHandler example_getKey 12 3 (delivery_request ''beeceptor.com/other'' ''200'' [1, 2, 3]) two_waiters =
     (Inr NOT_FOUND, two_waiters)"
  using delivery_unknown_key [of two_waiters "''beeceptor.com/other''"
      "delivery_request ''beeceptor.com/other'' ''200'' [1, 2, 3]" 12 example_getKey 3]
  by (simp add: scenario_defs two_waiters_eval boot_eval cache_key_def delivery_request_def)

text \<open>C10, instance: the only request is in a cooling queue; the answer is 204 and the
  cooldown of \<open>goodreads.com\<close>, which ran out at 100, is still stored at 20000.\<close>

theorem no_dispatch_keeps_cooldowns_witness:
  "handleRequestNextInQueue (client_get ''/'') 20000 cooling_state =
     (Inr EMPTY,
      cooling_state\<lparr>CLIENTS :=
        [(''aF7my75$'', \<lparr>cid = ''aF7my75$'', activeAt = 20000, started = 0, finished = 0\<rparr>)]\<rparr>) \<and>
   status EMPTY = 204 \<and>
   localStorage (cooling_state\<lparr>CLIENTS :=
        [(''aF7my75$'', \<lparr>cid = ''aF7my75$'', activeAt = 20000, started = 0, finished = 0\<rparr>)]\<rparr>) =
     [(''aF7my75$'', ''annas-archive.org,25000,goodreads.com,100'')]"
  using no_dispatch_keeps_cooldowns [of "client_get ''/''" 20000
      cooling_state EMPTY
      "cooling_state\<lparr>CLIENTS :=
        [(''aF7my75$'', \<lparr>cid = ''aF7my75$'', activeAt = 20000, started = 0, finished = 0\<rparr>)]\<rparr>"]
  by (simp add: scenario_defs handleRequestNextInQueue_def getClient_def get_request_def js_or_def getNextInQueue_def
      scan_step_def cooling_state_eval decode_example pending_def TIMEOUT_def EMPTY_def Let_def)

text \<open>
  C4, at a \<open>GET /\<close> that carries only \<open>x-forwarded-for\<close>. \<open>getClient\<close> reads the
  header \<open>x-forwared-for\<close>, so no client id is found and the answer is 400, in every
  state; with a request pending, the same call is dispatched that request when the
  address comes under the misspelt name.
\<close>

theorem forwarded_for_not_read:
  "getClient (get_request ''/'' [(''x-forwarded-for'', ''203.0.113.7'')]) now s = (None, s) \<and>
   httpHandler g now p (get_request ''/'' [(''x-forwarded-for'', ''203.0.113.7'')]) s =
     (Inr (fail 400 ''expect the x-client-id header to be set''), s) \<and>
   status (fail 400 ''expect the x-client-id header to be set'') = 400 \<and>
   fst (httpHandler example_getKey 6000 3 (get_request ''/'' [(''x-forwared-for'', ''203.0.113.7'')]) stale_enqueued) =
     Inr \<lparr>status = 200, resp_headers = [(''content-type'', ''application/json'')],
          resp_body = DispatchJson cache_key ''https://beeceptor.com/x?q=1'' None 1\<rparr>"
proof -
  have "fst (httpHandler example_getKey 6000 3 (get_request ''/'' [(''x-forwared-for'', ''203.0.113.7'')]) stale_enqueued) =
     Inr \<lparr>status = 200, resp_headers = [(''content-type'', ''application/json'')],
          resp_body = DispatchJson cache_key ''https://beeceptor.com/x?q=1'' None 1\<rparr>"
    by (simp add: scenario_defs stale_enqueued_eval boot_eval httpHandler_def get_request_def handleRequestNextInQueue_def
        getClient_def js_or_def getNextInQueue_def scan_step_def decodeTimers_def cache_key_def Let_def)
  then show ?thesis
    by (simp add: scenario_defs getClient_def get_request_def js_or_def httpHandler_def handleRequestNextInQueue_def fail_def)
qed

end
